theory Spec2Isabelle
  imports Complex_Main
begin

section \<open>The render feature of \<open>ol/render/Feature.js\<close>\<close>

text \<open>
  \<open>RenderFeature\<close> is a class with eight fields: the geometry type, the flat coordinate
  buffer, the ends descriptor, the properties, the id, and three lazily filled caches
  (\<open>extent_\<close>, \<open>flatInteriorPoints_\<close>, \<open>flatMidpoints_\<close>). The class is modelled as a
  record, a method that writes a field as a function returning the updated record next to
  its result, and a method that only reads as a function of the record.

  JavaScript numbers are modelled as the real numbers: rounding, \<open>NaN\<close> and the
  infinities of IEEE doubles are outside the model. Array offsets are natural numbers.
\<close>

subsection \<open>Data\<close>

text \<open>
  Modelled from the spec: \<open>ol/geom/GeometryType.js\<close> is not part of the sources. The spec
  gives the type tag as a closed enumeration "Point, LineString, Polygon, MultiPoint,
  MultiLineString, MultiPolygon, ..."; the last constructor stands for the tags the spec
  does not name.
\<close>

datatype GeometryType =
    POINT
  | LINE_STRING
  | POLYGON
  | MULTI_POINT
  | MULTI_LINE_STRING
  | MULTI_POLYGON
  | OTHER_GEOMETRY string

text \<open>
  An extent is the four-number box \<open>[minX, minY, maxX, maxY]\<close> (type
  \<open>module:ol/extent~Extent\<close> of the source's annotations).
\<close>

type_synonym extent = "real \<times> real \<times> real \<times> real"

text \<open>The feature id is a number, a string, or undefined (\<open>None\<close>).\<close>

datatype feature_id = IdNumber real | IdString string

text \<open>
  A JavaScript object as the property read \<open>obj[key]\<close> sees it: its own properties, and
  the properties of the objects on its prototype chain, the nearest prototype first. An
  object literal has the chain \<open>[Object.prototype]\<close>; an object made by
  \<open>Object.create(null)\<close> has the empty chain. The properties are data properties with
  defined values, as a decoder stores them: a property that holds \<open>undefined\<close>, a
  getter and a proxy are outside the model. The read returns the value of the first
  object, from the object itself along the chain, that has the key, and \<open>undefined\<close>
  (\<open>None\<close>) when no object has it.
\<close>

record 'v JSObject =
  ownProperties :: "string \<rightharpoonup> 'v"
  prototypeChain :: "(string \<rightharpoonup> 'v) list"

fun chainLookup :: "(string \<rightharpoonup> 'v) list \<Rightarrow> string \<Rightarrow> 'v option" where
  "chainLookup [] key = None"
| "chainLookup (m # ms) key =
     (case m key of Some v \<Rightarrow> Some v | None \<Rightarrow> chainLookup ms key)"

definition propertyRead :: "'v JSObject \<Rightarrow> string \<Rightarrow> 'v option" where
  "propertyRead obj key = chainLookup (ownProperties obj # prototypeChain obj) key"

text \<open>
  The fields of the class, in the order of the constructor; the trailing underscore of a
  private field of the source is written as a prime. A cache field that holds
  \<open>undefined\<close> or \<open>null\<close> is \<open>None\<close>; one that holds an array is \<open>Some\<close> of it. An
  array is truthy in JavaScript even when it is empty, so the test \<open>!this.extent_\<close> of
  the source is the test for \<open>None\<close>.

  The ends descriptor is an array of offsets, or an array of arrays of offsets for a
  multi-polygon; the element type \<open>'e\<close> is \<open>nat\<close> in the first case and \<open>nat list\<close> in the
  second. The properties are a JavaScript object with values of an arbitrary type \<open>'v\<close>.
\<close>

record ('e, 'v) RenderFeature =
  extent' :: "extent option"
  id' :: "feature_id option"
  type' :: GeometryType
  flatCoordinates' :: "real list"
  flatInteriorPoints' :: "real list option"
  flatMidpoints' :: "real list option"
  ends' :: "'e list"
  properties' :: "'v JSObject"

text \<open>The constructor (lines 35 to 84) stores its arguments and leaves the caches unset.\<close>

definition constructor ::
  "GeometryType \<Rightarrow> real list \<Rightarrow> 'e list \<Rightarrow> 'v JSObject \<Rightarrow> feature_id option
    \<Rightarrow> ('e, 'v) RenderFeature" where
  "constructor type flatCoordinates ends properties ident =
     \<lparr>extent' = None, id' = ident, type' = type, flatCoordinates' = flatCoordinates,
      flatInteriorPoints' = None, flatMidpoints' = None, ends' = ends,
      properties' = properties\<rparr>"

subsection \<open>Imported helpers\<close>

text \<open>
  The source imports its geometry helpers from modules that are not part of the sources.
  The helpers whose results the feature only stores and hands on are parameters of the
  model, collected in a record: \<open>getCenter\<close> of \<open>ol/extent.js\<close>,
  \<open>getInteriorPointOfArray\<close> and \<open>getInteriorPointsOfMultiArray\<close> of
  \<open>ol/geom/flat/interiorpoint.js\<close>, \<open>linearRingss\<close> of \<open>ol/geom/flat/center.js\<close> (imported
  as \<open>linearRingssCenter\<close>) and \<open>interpolatePoint\<close> of \<open>ol/geom/flat/interpolate.js\<close>.
  Every theorem below that mentions them holds for all helpers of these types. Each
  returns an array of numbers.
\<close>

record 'e Engines =
  getCenter :: "extent \<Rightarrow> real list"
  getInteriorPointOfArray ::
    "real list \<Rightarrow> nat \<Rightarrow> 'e list \<Rightarrow> nat \<Rightarrow> real list \<Rightarrow> nat \<Rightarrow> real list"
  linearRingssCenter :: "real list \<Rightarrow> nat \<Rightarrow> 'e list \<Rightarrow> nat \<Rightarrow> real list"
  getInteriorPointsOfMultiArray ::
    "real list \<Rightarrow> nat \<Rightarrow> 'e list \<Rightarrow> nat \<Rightarrow> real list \<Rightarrow> real list"
  interpolatePoint :: "real list \<Rightarrow> nat \<Rightarrow> nat \<Rightarrow> nat \<Rightarrow> real \<Rightarrow> real list"

text \<open>
  Modelled from the spec: the projection class and the registry behind \<open>get\<close> of
  \<open>ol/proj.js\<close> (imported as \<open>getProjection\<close>) are not part of the sources. Spec 6: "a
  projection registry capable of resolving a projection-like identifier to an object
  exposing its pixel extent and world extent". The registry is a parameter of
  \<open>transform\<close>: a partial map from projection-like values of an arbitrary type \<open>'p\<close>.
\<close>

record Projection =
  projExtent :: extent
  projWorldExtent :: extent

text \<open>Spec 7: an unresolvable projection identifier is the only failure of \<open>transform\<close>.\<close>

datatype error = ProjectionNotFound

text \<open>
  The coordinate pairs of a flat buffer read at stride 2. A trailing single number, which
  the data model of the spec excludes ("always an even count"), belongs to no pair.
\<close>

fun pairs :: "real list \<Rightarrow> (real \<times> real) list" where
  "pairs (x # y # rest) = (x, y) # pairs rest"
| "pairs rest = []"

text \<open>
  Modelled from the spec: \<open>createOrUpdateFromCoordinate\<close> of \<open>ol/extent.js\<close> is not part of
  the sources. Spec 4.1: "If type is Point: extent degenerates to a zero-area box at the
  single coordinate pair." The spec says nothing about a buffer without a pair; the model
  returns the box at the origin there, and no theorem relies on that value.
\<close>

definition createOrUpdateFromCoordinate :: "real list \<Rightarrow> extent" where
  "createOrUpdateFromCoordinate coordinate =
     (case pairs coordinate of
        [] \<Rightarrow> (0, 0, 0, 0)
      | (x, y) # rest \<Rightarrow> (x, y, x, y))"

text \<open>
  Modelled from the spec: \<open>createOrUpdateFromFlatCoordinates\<close> of \<open>ol/extent.js\<close> is not part
  of the sources. Spec 4.1: "scan the entire coordinate buffer at stride 2, tracking
  running min/max of x and y independently. Input must be non-empty; behavior on an empty
  buffer is undefined". \<open>extendXY\<close> is one step of the running minimum and maximum. The
  scan runs over the pairs between \<open>offset\<close> and \<open>end\<close>; the stride is fixed at 2 by the
  spec. For a slice without a pair, which the spec leaves undefined, the model returns
  the box at the origin, and no theorem relies on that value.
\<close>

definition extendXY :: "extent \<Rightarrow> real \<times> real \<Rightarrow> extent" where
  "extendXY e p =
     (case e of (minX, minY, maxX, maxY) \<Rightarrow>
        (min minX (fst p), min minY (snd p), max maxX (fst p), max maxY (snd p)))"

definition createOrUpdateFromFlatCoordinates ::
  "real list \<Rightarrow> nat \<Rightarrow> nat \<Rightarrow> nat \<Rightarrow> extent" where
  "createOrUpdateFromFlatCoordinates flatCoordinates offset end stride =
     (case pairs (take (end - offset) (drop offset flatCoordinates)) of
        [] \<Rightarrow> (0, 0, 0, 0)
      | (x, y) # rest \<Rightarrow> foldl extendXY (x, y, x, y) rest)"

text \<open>
  Modelled from the spec: \<open>getHeight\<close> of \<open>ol/extent.js\<close> is not part of the sources. The
  spec speaks of the "height" of an extent \<open>[minX, minY, maxX, maxY]\<close>.
\<close>

definition getHeight :: "extent \<Rightarrow> real" where
  "getHeight e = (case e of (minX, minY, maxX, maxY) \<Rightarrow> maxY - minY)"

text \<open>
  Modelled from the spec: \<open>extend\<close> of \<open>ol/array.js\<close> is not part of the sources. Spec 4.2:
  the per-ring results "are concatenated in ring order".
\<close>

definition extend :: "real list \<Rightarrow> real list \<Rightarrow> real list" where
  "extend arr data = arr @ data"

text \<open>
  Modelled from the spec: \<open>compose\<close> of \<open>ol/transform.js\<close> (imported as
  \<open>composeTransform\<close>) is not part of the sources. Spec 4.4: "Build a 6-parameter affine
  transform (scale, rotation=0, translate) positioned at the [...] world extent's
  top-left corner, with y-axis inverted (negative scale on y)". The six parameters
  \<open>(a, b, c, d, e, f)\<close> stand for the map
  \<open>(x, y) \<mapsto> (a * x + c * y + e, b * x + d * y + f)\<close>: a scaling by \<open>(sx, sy)\<close>, a rotation
  by \<open>angle\<close>, and a translation to \<open>(dx1, dy1)\<close>. The spec does not describe the last two
  arguments, which the only call sets to 0; the model reads them as a translation applied
  before the scaling, which vanishes at 0. The first argument of the source, the target
  array \<open>tmpTransform\<close> that is overwritten, is the result of the model.
\<close>

type_synonym Transform = "real \<times> real \<times> real \<times> real \<times> real \<times> real"

definition composeTransform ::
  "real \<Rightarrow> real \<Rightarrow> real \<Rightarrow> real \<Rightarrow> real \<Rightarrow> real \<Rightarrow> real \<Rightarrow> Transform" where
  "composeTransform dx1 dy1 sx sy angle dx2 dy2 =
     (sx * cos angle, sy * sin angle, - sx * sin angle, sy * cos angle,
      dx2 * sx * cos angle - dy2 * sx * sin angle + dx1,
      dx2 * sy * sin angle + dy2 * sy * cos angle + dy1)"

text \<open>
  Modelled from the spec: \<open>transform2D\<close> of \<open>ol/geom/flat/transform.js\<close> is not part of the
  sources. Spec 4.4: "Apply the transform to every coordinate pair in place, stride 2,
  overwriting the buffer." The result is the buffer after the call (the source passes the
  buffer as the destination too). A trailing single number, excluded by the data model,
  is left as it is.
\<close>

definition applyTransform :: "Transform \<Rightarrow> real \<times> real \<Rightarrow> real \<times> real" where
  "applyTransform t p =
     (case t of (a, b, c, d, e, f) \<Rightarrow>
        (a * fst p + c * snd p + e, b * fst p + d * snd p + f))"

fun transformPairs :: "Transform \<Rightarrow> real list \<Rightarrow> real list" where
  "transformPairs t (x # y # rest) =
     fst (applyTransform t (x, y)) # snd (applyTransform t (x, y)) # transformPairs t rest"
| "transformPairs t rest = rest"

definition transform2D :: "real list \<Rightarrow> nat \<Rightarrow> nat \<Rightarrow> nat \<Rightarrow> Transform \<Rightarrow> real list" where
  "transform2D flatCoordinates offset end stride t =
     take offset flatCoordinates
     @ transformPairs t (take (end - offset) (drop offset flatCoordinates))
     @ drop end flatCoordinates"

subsection \<open>The methods\<close>

text \<open>\<open>get\<close> (lines 92 to 94): the property read \<open>this.properties_[key]\<close>.\<close>

definition get :: "('e, 'v) RenderFeature \<Rightarrow> string \<Rightarrow> 'v option" where
  "get this key = propertyRead (properties' this) key"

text \<open>\<open>getExtent\<close> (lines 101 to 110).\<close>

definition getExtent :: "('e, 'v) RenderFeature \<Rightarrow> extent \<times> ('e, 'v) RenderFeature" where
  "getExtent this =
     (case extent' this of
        Some e \<Rightarrow> (e, this)
      | None \<Rightarrow>
          (let e = (if type' this = POINT
                    then createOrUpdateFromCoordinate (flatCoordinates' this)
                    else createOrUpdateFromFlatCoordinates
                           (flatCoordinates' this) 0 (length (flatCoordinates' this)) 2)
           in (e, this\<lparr>extent' := Some e\<rparr>)))"

text \<open>\<open>getFlatInteriorPoint\<close> (lines 115 to 122). The call of \<open>this.getExtent()\<close> may fill
  the extent cache.\<close>

definition getFlatInteriorPoint ::
  "'e Engines \<Rightarrow> ('e, 'v) RenderFeature \<Rightarrow> real list \<times> ('e, 'v) RenderFeature" where
  "getFlatInteriorPoint E this =
     (case flatInteriorPoints' this of
        Some p \<Rightarrow> (p, this)
      | None \<Rightarrow>
          (let (ext, this1) = getExtent this;
               flatCenter = getCenter E ext;
               p = getInteriorPointOfArray E
                     (flatCoordinates' this1) 0 (ends' this1) 2 flatCenter 0
           in (p, this1\<lparr>flatInteriorPoints' := Some p\<rparr>)))"

text \<open>\<open>getFlatInteriorPoints\<close> (lines 127 to 135).\<close>

definition getFlatInteriorPoints ::
  "'e Engines \<Rightarrow> ('e, 'v) RenderFeature \<Rightarrow> real list \<times> ('e, 'v) RenderFeature" where
  "getFlatInteriorPoints E this =
     (case flatInteriorPoints' this of
        Some p \<Rightarrow> (p, this)
      | None \<Rightarrow>
          (let flatCenters = linearRingssCenter E (flatCoordinates' this) 0 (ends' this) 2;
               p = getInteriorPointsOfMultiArray E
                     (flatCoordinates' this) 0 (ends' this) 2 flatCenters
           in (p, this\<lparr>flatInteriorPoints' := Some p\<rparr>)))"

text \<open>\<open>getFlatMidpoint\<close> (lines 140 to 146).\<close>

definition getFlatMidpoint ::
  "'e Engines \<Rightarrow> ('e, 'v) RenderFeature \<Rightarrow> real list \<times> ('e, 'v) RenderFeature" where
  "getFlatMidpoint E this =
     (case flatMidpoints' this of
        Some p \<Rightarrow> (p, this)
      | None \<Rightarrow>
          (let p = interpolatePoint E
                     (flatCoordinates' this) 0 (length (flatCoordinates' this)) 2 (1 / 2)
           in (p, this\<lparr>flatMidpoints' := Some p\<rparr>)))"

text \<open>
  \<open>getFlatMidpoints\<close> (lines 151 to 166). The loop over the ends is the recursion
  \<open>midpointsLoop\<close>: its arguments are the rest of the ends, the running \<open>offset\<close> and the
  array collected so far. The ends are numbers here, as \<open>interpolatePoint\<close> takes them as
  its \<open>end\<close> argument.
\<close>

fun midpointsLoop ::
  "'e Engines \<Rightarrow> real list \<Rightarrow> nat list \<Rightarrow> nat \<Rightarrow> real list \<Rightarrow> real list" where
  "midpointsLoop E flatCoordinates [] offset flatMidpoints = flatMidpoints"
| "midpointsLoop E flatCoordinates (end # ends) offset flatMidpoints =
     (let midpoint = interpolatePoint E flatCoordinates offset end 2 (1 / 2)
      in midpointsLoop E flatCoordinates ends end (extend flatMidpoints midpoint))"

definition getFlatMidpoints ::
  "'e Engines \<Rightarrow> (nat, 'v) RenderFeature \<Rightarrow> real list \<times> (nat, 'v) RenderFeature" where
  "getFlatMidpoints E this =
     (case flatMidpoints' this of
        Some p \<Rightarrow> (p, this)
      | None \<Rightarrow>
          (let p = midpointsLoop E (flatCoordinates' this) (ends' this) 0 []
           in (p, this\<lparr>flatMidpoints' := Some p\<rparr>)))"

text \<open>The plain accessors (lines 174 to 218 and 245 to 263) read one field each.\<close>

definition getId :: "('e, 'v) RenderFeature \<Rightarrow> feature_id option" where
  "getId this = id' this"

definition getOrientedFlatCoordinates :: "('e, 'v) RenderFeature \<Rightarrow> real list" where
  "getOrientedFlatCoordinates this = flatCoordinates' this"

definition getGeometry :: "('e, 'v) RenderFeature \<Rightarrow> ('e, 'v) RenderFeature" where
  "getGeometry this = this"

definition getProperties :: "('e, 'v) RenderFeature \<Rightarrow> 'v JSObject" where
  "getProperties this = properties' this"

definition getStride :: "('e, 'v) RenderFeature \<Rightarrow> nat" where
  "getStride this = 2"

definition getType :: "('e, 'v) RenderFeature \<Rightarrow> GeometryType" where
  "getType this = type' this"

definition getEnds :: "('e, 'v) RenderFeature \<Rightarrow> 'e list" where
  "getEnds this = ends' this"

definition getFlatCoordinates :: "('e, 'v) RenderFeature \<Rightarrow> real list" where
  "getFlatCoordinates = getOrientedFlatCoordinates"

text \<open>
  \<open>transform\<close> (lines 227 to 238). The source resolves \<open>source\<close> only; \<open>destination\<close> is
  not read. The module-level \<open>tmpTransform\<close> is overwritten by every call before it is
  read, so it is a local value of the model. The components 0 and 3 of the world extent
  are its \<open>minX\<close> and \<open>maxY\<close>. At a pixel extent of height zero the source divides by
  zero and writes \<open>Infinity\<close> and \<open>NaN\<close>, which the real numbers do not have; the value
  of the model there (the division of the reals gives 0) is not the value of the source,
  and every theorem about the coordinates that \<open>transform\<close> writes assumes a non-zero
  height.
\<close>

definition transform ::
  "('p \<Rightarrow> Projection option) \<Rightarrow> 'p \<Rightarrow> 'p \<Rightarrow> ('e, 'v) RenderFeature
    \<Rightarrow> error + ('e, 'v) RenderFeature" where
  "transform getProjection source destination this =
     (case getProjection source of
        None \<Rightarrow> Inl ProjectionNotFound
      | Some src \<Rightarrow>
          (let pixelExtent = projExtent src;
               projectedExtent = projWorldExtent src;
               scale = getHeight projectedExtent / getHeight pixelExtent;
               tmpTransform =
                 (case projectedExtent of (minX, minY, maxX, maxY) \<Rightarrow>
                    composeTransform minX maxY scale (- scale) 0 0 0)
           in Inr (this\<lparr>flatCoordinates' :=
                 transform2D (flatCoordinates' this) 0 (length (flatCoordinates' this)) 2
                   tmpTransform\<rparr>)))"

subsection \<open>Example data\<close>

text \<open>
  Three projections and a registry that resolves their codes: a tile-pixel projection
  whose pixel extent starts at the origin, one whose pixel extent does not, and a
  geographic projection. They are the concrete inputs of the examples below.
\<close>

definition tilePixels :: Projection where
  "tilePixels = \<lparr>projExtent = (0, 0, 4096, 4096), projWorldExtent = (0, 0, 8192, 8192)\<rparr>"

definition shiftedPixels :: Projection where
  "shiftedPixels = \<lparr>projExtent = (10, 10, 20, 20), projWorldExtent = (0, 0, 100, 100)\<rparr>"

definition epsg4326 :: Projection where
  "epsg4326 = \<lparr>projExtent = (-180, -90, 180, 90), projWorldExtent = (-180, -90, 180, 90)\<rparr>"

definition exampleRegistry :: "string \<Rightarrow> Projection option" where
  "exampleRegistry code =
     (if code = ''tile-pixels'' then Some tilePixels
      else if code = ''shifted-pixels'' then Some shiftedPixels
      else if code = ''EPSG:4326'' then Some epsg4326
      else None)"

text \<open>
  Property values for the examples: strings, numbers and built-in functions, the last
  named by their names. \<open>objectPrototype\<close> holds some of the members that every object
  literal inherits from \<open>Object.prototype\<close>, and \<open>objectLiteral\<close> is the object that the
  literal \<open>{...}\<close> with the given own properties creates.
\<close>

datatype jsvalue = JSString string | JSNumber real | NativeFunction string

definition objectPrototype :: "string \<rightharpoonup> jsvalue" where
  "objectPrototype =
     [''constructor'' \<mapsto> NativeFunction ''Object'',
      ''hasOwnProperty'' \<mapsto> NativeFunction ''hasOwnProperty'',
      ''toString'' \<mapsto> NativeFunction ''toString'',
      ''valueOf'' \<mapsto> NativeFunction ''valueOf'']"

definition objectLiteral :: "(string \<rightharpoonup> jsvalue) \<Rightarrow> jsvalue JSObject" where
  "objectLiteral props = \<lparr>ownProperties = props, prototypeChain = [objectPrototype]\<rparr>"

text \<open>A line string from \<open>(0, 0)\<close> to \<open>(10, 10)\<close> and a point at \<open>(3, 4)\<close>, as the decoder
  would construct them.\<close>

definition lineFeature :: "(nat, jsvalue) RenderFeature" where
  "lineFeature =
     constructor LINE_STRING [0, 0, 10, 10] [4]
       (objectLiteral [''name'' \<mapsto> JSString ''road'']) (Some (IdNumber 7))"

definition pointFeature :: "(nat, jsvalue) RenderFeature" where
  "pointFeature = constructor POINT [3, 4] [] (objectLiteral Map.empty) None"

text \<open>Two lines in one buffer, from \<open>(0, 0)\<close> to \<open>(10, 0)\<close> and from \<open>(0, 0)\<close> to
  \<open>(0, 10)\<close>, with the ends \<open>[4, 8]\<close>.\<close>

definition twoLinesFeature :: "(nat, jsvalue) RenderFeature" where
  "twoLinesFeature =
     constructor MULTI_LINE_STRING [0, 0, 10, 0, 0, 0, 0, 10] [4, 8] (objectLiteral Map.empty) None"

text \<open>Two points at corners of the pixel extent of \<open>shiftedPixels\<close>: \<open>(10, 10)\<close>, its
  top-left corner in pixel rows that run downwards, and \<open>(10, 20)\<close>.\<close>

definition cornerFeature :: "(nat, jsvalue) RenderFeature" where
  "cornerFeature = constructor MULTI_POINT [10, 10, 10, 20] [] (objectLiteral Map.empty) None"

text \<open>The line string after a call of \<open>getExtent\<close> and a call of \<open>transform\<close> from
  \<open>tilePixels\<close>.\<close>

definition transformedLine :: "(nat, jsvalue) RenderFeature" where
  "transformedLine = (snd (getExtent lineFeature))\<lparr>flatCoordinates' := [0, 8192, 20, 8172]\<rparr>"

text \<open>The point after a call of \<open>getExtent\<close> and a call of \<open>transform\<close> from
  \<open>tilePixels\<close>.\<close>

definition transformedPoint :: "(nat, jsvalue) RenderFeature" where
  "transformedPoint = (snd (getExtent pointFeature))\<lparr>flatCoordinates' := [6, 8184]\<rparr>"

text \<open>Two single points in one buffer, \<open>(0, 0)\<close> and \<open>(10, 10)\<close>, with the ends
  \<open>[2, 4]\<close>.\<close>

definition twoPointsFeature :: "(nat, jsvalue) RenderFeature" where
  "twoPointsFeature =
     constructor MULTI_LINE_STRING [0, 0, 10, 10] [2, 4] (objectLiteral Map.empty) None"

text \<open>
  The affine map in the words of spec 4.4, which places it by the destination: "Scale
  factor = (destination world-extent height) / (source pixel-extent height)", the
  transform "positioned at the destination world extent's top-left corner, with y-axis
  inverted". It is compared with what \<open>transform\<close> computes.
\<close>

definition affineToDestination :: "Projection \<Rightarrow> Projection \<Rightarrow> real \<times> real \<Rightarrow> real \<times> real" where
  "affineToDestination src dst p =
     (let s = getHeight (projWorldExtent dst) / getHeight (projExtent src)
      in case projWorldExtent dst of (minX, minY, maxX, maxY) \<Rightarrow>
           (s * fst p + minX, - s * snd p + maxY))"

text \<open>
  An instance of the helper parameters for the examples. \<open>getCenter\<close> is the centre of
  the box; the interior-point helpers return the seed centre they are given, which is
  the fallback of spec 4.3 for a degenerate polygon; \<open>interpolatePoint\<close> interpolates
  between the first and the last pair of the slice, which is the point at the given
  fraction of the path for a slice of one or two pairs. The theorems are proved for all
  helpers, not for this instance.
\<close>

definition exampleEngines :: "nat Engines" where
  "exampleEngines =
     \<lparr>getCenter = (\<lambda>e. case e of (minX, minY, maxX, maxY) \<Rightarrow>
                      [(minX + maxX) / 2, (minY + maxY) / 2]),
      getInteriorPointOfArray =
        (\<lambda>flatCoordinates offset ends stride flatCenters flatCentersOffset. flatCenters),
      linearRingssCenter =
        (\<lambda>flatCoordinates offset endss stride.
           case createOrUpdateFromFlatCoordinates flatCoordinates offset
                  (length flatCoordinates) stride of
             (minX, minY, maxX, maxY) \<Rightarrow> [(minX + maxX) / 2, (minY + maxY) / 2]),
      getInteriorPointsOfMultiArray =
        (\<lambda>flatCoordinates offset endss stride flatCenters. flatCenters),
      interpolatePoint =
        (\<lambda>flatCoordinates offset end stride fraction.
           case pairs (take (end - offset) (drop offset flatCoordinates)) of
             [] \<Rightarrow> []
           | (x1, y1) # rest \<Rightarrow>
               (case last ((x1, y1) # rest) of (x2, y2) \<Rightarrow>
                  [(1 - fraction) * x1 + fraction * x2,
                   (1 - fraction) * y1 + fraction * y2]))\<rparr>"

section \<open>Property lookup\<close>

lemma chainLookup_absent:
  "(\<forall>m \<in> set ms. key \<notin> dom m) \<Longrightarrow> chainLookup ms key = None"
  by (induction ms) (auto split: option.splits)

text \<open>
  C7, as the source has it. \<open>get\<close> is the property read of JavaScript, which also finds
  inherited members. For a key that the properties object holds as its own, \<open>get\<close>
  returns the stored value. For a key that neither the object nor any object on its
  prototype chain holds, \<open>get\<close> returns the undefined result (\<open>None\<close>). For a key that the
  object does not hold as its own, \<open>get\<close> returns what the read finds on the prototype
  chain: the member of the nearest prototype that has the key. \<open>get\<close> is a total function
  without an error result: no read of a data property raises.
\<close>

theorem get_lookup:
  "(\<forall>v. ownProperties (properties' this) key = Some v \<longrightarrow> get this key = Some v)
   \<and> (key \<notin> dom (ownProperties (properties' this))
        \<and> (\<forall>m \<in> set (prototypeChain (properties' this)). key \<notin> dom m)
        \<longrightarrow> get this key = None)
   \<and> (key \<notin> dom (ownProperties (properties' this))
        \<longrightarrow> get this key = chainLookup (prototypeChain (properties' this)) key)"
proof (intro conjI allI impI)
  fix v assume "ownProperties (properties' this) key = Some v"
  then show "get this key = Some v" by (simp add: get_def propertyRead_def)
next
  assume "key \<notin> dom (ownProperties (properties' this))
        \<and> (\<forall>m \<in> set (prototypeChain (properties' this)). key \<notin> dom m)"
  then have "ownProperties (properties' this) key = None"
    and "chainLookup (prototypeChain (properties' this)) key = None"
    using chainLookup_absent [of "prototypeChain (properties' this)" key] by auto
  then show "get this key = None" by (simp add: get_def propertyRead_def)
next
  assume "key \<notin> dom (ownProperties (properties' this))"
  then have "ownProperties (properties' this) key = None" by auto
  then show "get this key = chainLookup (prototypeChain (properties' this)) key"
    by (simp add: get_def propertyRead_def)
qed

text \<open>The line string was constructed with the properties \<open>{name: 'road'}\<close>: the key
  \<open>name\<close> gives the stored string, and the key \<open>colour\<close>, which neither the object nor
  \<open>Object.prototype\<close> holds, gives the undefined result.\<close>

theorem get_lookup_witness:
  "ownProperties (properties' lineFeature) ''name'' = Some (JSString ''road'')
   \<and> get lineFeature ''name'' = Some (JSString ''road'')
   \<and> ''colour'' \<notin> dom (ownProperties (properties' lineFeature))
   \<and> ''colour'' \<notin> dom objectPrototype
   \<and> prototypeChain (properties' lineFeature) = [objectPrototype]
   \<and> get lineFeature ''colour'' = None
   \<and> ''valueOf'' \<notin> dom (ownProperties (properties' lineFeature))
   \<and> get lineFeature ''valueOf'' = Some (NativeFunction ''valueOf'')"
proof -
  have present: "ownProperties (properties' lineFeature) ''name'' = Some (JSString ''road'')"
    by (simp add: lineFeature_def constructor_def objectLiteral_def)
  have absent: "''colour'' \<notin> dom (ownProperties (properties' lineFeature))"
    "''colour'' \<notin> dom objectPrototype"
    "''valueOf'' \<notin> dom (ownProperties (properties' lineFeature))"
    by (simp_all add: lineFeature_def constructor_def objectLiteral_def objectPrototype_def)
  have chain: "prototypeChain (properties' lineFeature) = [objectPrototype]"
    by (simp add: lineFeature_def constructor_def objectLiteral_def)
  have inherited: "chainLookup [objectPrototype] ''valueOf'' = Some (NativeFunction ''valueOf'')"
    by (simp add: objectPrototype_def)
  from get_lookup [of lineFeature "''name''"] present
  have 1: "get lineFeature ''name'' = Some (JSString ''road'')" by blast
  from get_lookup [of lineFeature "''colour''"] absent(1,2) chain
  have 2: "get lineFeature ''colour'' = None" by simp
  from get_lookup [of lineFeature "''valueOf''"] absent(3) chain inherited
  have 3: "get lineFeature ''valueOf'' = Some (NativeFunction ''valueOf'')" by simp
  show ?thesis using present absent chain 1 2 3 by simp
qed

text \<open>
  C7 as it is stated, with the undefined result for every key that the property mapping
  does not hold, fails for an inherited key: the properties \<open>{name: 'road'}\<close> of the line
  string do not hold the key \<open>toString\<close>, and \<open>get\<close> returns the function of that name
  that the object inherits from \<open>Object.prototype\<close>.
\<close>

theorem get_inherited_counterexample:
  "''toString'' \<notin> dom (ownProperties (properties' lineFeature))
   \<and> get lineFeature ''toString'' = Some (NativeFunction ''toString'')"
  by (simp add: get_def propertyRead_def lineFeature_def constructor_def objectLiteral_def
      objectPrototype_def)

section \<open>The extent\<close>

lemma extendXY_pair:
  "extendXY (a, b, c, d) (x, y) = (min a x, min b y, max c x, max d y)"
  by (simp add: extendXY_def)

text \<open>
  The running box of the scan: it only grows, it holds every pair scanned, and each of
  its four bounds is the bound it started with or a coordinate of a scanned pair.
\<close>

lemma foldl_extendXY_bounds:
  "foldl extendXY (a, b, c, d) ps = (a', b', c', d') \<Longrightarrow>
     a' \<le> a \<and> b' \<le> b \<and> c \<le> c' \<and> d \<le> d'
     \<and> (\<forall>(x, y) \<in> set ps. a' \<le> x \<and> x \<le> c' \<and> b' \<le> y \<and> y \<le> d')
     \<and> (a' = a \<or> a' \<in> fst ` set ps) \<and> (b' = b \<or> b' \<in> snd ` set ps)
     \<and> (c' = c \<or> c' \<in> fst ` set ps) \<and> (d' = d \<or> d' \<in> snd ` set ps)"
proof (induction ps arbitrary: a b c d)
  case Nil
  then show ?case by simp
next
  case (Cons p ps)
  obtain x y where p: "p = (x, y)" by (cases p)
  from Cons.prems have
    step: "foldl extendXY (min a x, min b y, max c x, max d y) ps = (a', b', c', d')"
    by (simp add: p extendXY_pair)
  note IH = Cons.IH [OF step]
  show ?case
    using IH unfolding p by (auto simp: min_def max_def split: if_splits)
qed

lemma pairs_nonempty:
  "xs \<noteq> [] \<Longrightarrow> even (length xs) \<Longrightarrow> \<exists>x y rest. xs = x # y # rest"
  by (cases xs; cases "tl xs") auto

lemma getExtent_unset_bounds:
  assumes "extent' this = None"
  shows "(type' this \<noteq> POINT \<and> flatCoordinates' this \<noteq> []
            \<and> even (length (flatCoordinates' this)) \<longrightarrow>
            (case fst (getExtent this) of (minX, minY, maxX, maxY) \<Rightarrow>
               (\<forall>(x, y) \<in> set (pairs (flatCoordinates' this)).
                   minX \<le> x \<and> x \<le> maxX \<and> minY \<le> y \<and> y \<le> maxY)
               \<and> minX \<in> fst ` set (pairs (flatCoordinates' this))
               \<and> maxX \<in> fst ` set (pairs (flatCoordinates' this))
               \<and> minY \<in> snd ` set (pairs (flatCoordinates' this))
               \<and> maxY \<in> snd ` set (pairs (flatCoordinates' this))))
         \<and> (type' this = POINT \<and> flatCoordinates' this = [x, y] \<longrightarrow>
              fst (getExtent this) = (x, y, x, y))"
proof (intro conjI impI)
  assume h: "type' this \<noteq> POINT \<and> flatCoordinates' this \<noteq> []
    \<and> even (length (flatCoordinates' this))"
  then obtain x0 y0 rest where cs: "flatCoordinates' this = x0 # y0 # rest"
    using pairs_nonempty by blast
  obtain a b c d where r: "foldl extendXY (x0, y0, x0, y0) (pairs rest) = (a, b, c, d)"
    by (metis prod_cases4)
  have e: "fst (getExtent this) = (a, b, c, d)"
    using assms h r
    by (simp add: getExtent_def createOrUpdateFromFlatCoordinates_def cs Let_def)
  from foldl_extendXY_bounds [OF r]
  show "case fst (getExtent this) of (minX, minY, maxX, maxY) \<Rightarrow>
               (\<forall>(x, y) \<in> set (pairs (flatCoordinates' this)).
                   minX \<le> x \<and> x \<le> maxX \<and> minY \<le> y \<and> y \<le> maxY)
               \<and> minX \<in> fst ` set (pairs (flatCoordinates' this))
               \<and> maxX \<in> fst ` set (pairs (flatCoordinates' this))
               \<and> minY \<in> snd ` set (pairs (flatCoordinates' this))
               \<and> maxY \<in> snd ` set (pairs (flatCoordinates' this))"
    unfolding e cs by auto
next
  assume "type' this = POINT \<and> flatCoordinates' this = [x, y]"
  then show "fst (getExtent this) = (x, y, x, y)"
    using assms by (simp add: getExtent_def createOrUpdateFromCoordinate_def Let_def)
qed

text \<open>
  C2, as the source has it. Let the extent slot of a feature be unset, or hold the extent
  that \<open>getExtent\<close> computes from the type and the buffer the feature has now (which is so
  as long as no \<open>transform\<close> has come after the call that filled the slot). If the type is
  not \<open>POINT\<close> and the buffer is non-empty (and of even length, as the data model requires),
  the box \<open>(minX, minY, maxX, maxY)\<close> that \<open>getExtent\<close> returns bounds every coordinate pair
  of the buffer, and each of the four bounds is attained by a pair of the buffer. If the
  type is \<open>POINT\<close> and the buffer is the single pair \<open>[x, y]\<close>, the box returned is
  \<open>(x, y, x, y)\<close>.
\<close>

theorem getExtent_bounds:
  assumes "extent' this = None
           \<or> extent' this = Some (fst (getExtent (this\<lparr>extent' := None\<rparr>)))"
  shows "(type' this \<noteq> POINT \<and> flatCoordinates' this \<noteq> []
            \<and> even (length (flatCoordinates' this)) \<longrightarrow>
            (case fst (getExtent this) of (minX, minY, maxX, maxY) \<Rightarrow>
               (\<forall>(x, y) \<in> set (pairs (flatCoordinates' this)).
                   minX \<le> x \<and> x \<le> maxX \<and> minY \<le> y \<and> y \<le> maxY)
               \<and> minX \<in> fst ` set (pairs (flatCoordinates' this))
               \<and> maxX \<in> fst ` set (pairs (flatCoordinates' this))
               \<and> minY \<in> snd ` set (pairs (flatCoordinates' this))
               \<and> maxY \<in> snd ` set (pairs (flatCoordinates' this))))
         \<and> (type' this = POINT \<and> flatCoordinates' this = [x, y] \<longrightarrow>
              fst (getExtent this) = (x, y, x, y))"
proof -
  let ?fresh = "this\<lparr>extent' := None\<rparr>"
  have same: "fst (getExtent this) = fst (getExtent ?fresh)"
    using assms by (auto simp: getExtent_def Let_def)
  have f: "extent' ?fresh = None" "type' ?fresh = type' this"
    "flatCoordinates' ?fresh = flatCoordinates' this"
    by simp_all
  from getExtent_unset_bounds [OF f(1), of x y] show ?thesis
    unfolding same f .
qed

text \<open>The line string from \<open>(0, 0)\<close> to \<open>(10, 10)\<close> has the extent \<open>(0, 0, 10, 10)\<close>,
  before and after \<open>getExtent\<close> has filled the slot, and the point at \<open>(3, 4)\<close> the extent
  \<open>(3, 4, 3, 4)\<close>.\<close>

theorem getExtent_bounds_witness:
  "extent' lineFeature = None \<and> type' lineFeature \<noteq> POINT
   \<and> flatCoordinates' lineFeature \<noteq> [] \<and> even (length (flatCoordinates' lineFeature))
   \<and> fst (getExtent lineFeature) = (0, 0, 10, 10)
   \<and> (case fst (getExtent lineFeature) of (minX, minY, maxX, maxY) \<Rightarrow>
         minX \<le> 0 \<and> 10 \<le> maxX \<and> minY \<le> 0 \<and> 10 \<le> maxY)
   \<and> extent' (snd (getExtent lineFeature)) =
       Some (fst (getExtent ((snd (getExtent lineFeature))\<lparr>extent' := None\<rparr>)))
   \<and> (case fst (getExtent (snd (getExtent lineFeature))) of (minX, minY, maxX, maxY) \<Rightarrow>
         minX \<le> 0 \<and> 10 \<le> maxX \<and> minY \<le> 0 \<and> 10 \<le> maxY)
   \<and> extent' pointFeature = None \<and> type' pointFeature = POINT
   \<and> flatCoordinates' pointFeature = [3, 4]
   \<and> fst (getExtent pointFeature) = (3, 4, 3, 4)"
proof -
  let ?cached = "snd (getExtent lineFeature)"
  have l: "extent' lineFeature = None" "type' lineFeature \<noteq> POINT"
    "flatCoordinates' lineFeature \<noteq> []" "even (length (flatCoordinates' lineFeature))"
    "pairs (flatCoordinates' lineFeature) = [(0, 0), (10, 10)]"
    by (simp_all add: lineFeature_def constructor_def)
  have c: "extent' ?cached = Some (fst (getExtent (?cached\<lparr>extent' := None\<rparr>)))"
    "type' ?cached \<noteq> POINT"
    "flatCoordinates' ?cached \<noteq> []" "even (length (flatCoordinates' ?cached))"
    "pairs (flatCoordinates' ?cached) = [(0, 0), (10, 10)]"
    by (simp_all add: getExtent_def lineFeature_def constructor_def Let_def)
  have p: "extent' pointFeature = None" "type' pointFeature = POINT"
    "flatCoordinates' pointFeature = [3, 4]"
    by (simp_all add: pointFeature_def constructor_def)
  have e: "fst (getExtent lineFeature) = (0, 0, 10, 10)"
    by (simp add: getExtent_def lineFeature_def constructor_def
        createOrUpdateFromFlatCoordinates_def extendXY_def Let_def)
  from getExtent_bounds [of lineFeature 0 0] l
  have 1: "case fst (getExtent lineFeature) of (minX, minY, maxX, maxY) \<Rightarrow>
          minX \<le> 0 \<and> 10 \<le> maxX \<and> minY \<le> 0 \<and> 10 \<le> maxY"
    by (auto split: prod.splits)
  from getExtent_bounds [of ?cached 0 0] c
  have 2: "case fst (getExtent ?cached) of (minX, minY, maxX, maxY) \<Rightarrow>
          minX \<le> 0 \<and> 10 \<le> maxX \<and> minY \<le> 0 \<and> 10 \<le> maxY"
    by (auto split: prod.splits)
  from getExtent_bounds [of pointFeature 3 4] p
  have 3: "fst (getExtent pointFeature) = (3, 4, 3, 4)" by blast
  show ?thesis using l p e c(1) 1 2 3 by simp
qed

text \<open>
  C2 as it is stated, for every feature, fails on a feature that was transformed after
  its extent was cached. The line string, after \<open>getExtent\<close> and the transform from the
  tile pixels, is not a point and has the non-empty buffer \<open>[0, 8192, 20, 8172]\<close>, and
  \<open>getExtent\<close> returns \<open>(0, 0, 10, 10)\<close>, whose \<open>maxY\<close> of 10 is below the coordinate 8192
  of the pair \<open>(0, 8192)\<close>. The point, after \<open>getExtent\<close> and the same transform, has the
  single pair \<open>[6, 8184]\<close>, and \<open>getExtent\<close> returns \<open>(3, 4, 3, 4)\<close>.
\<close>

theorem getExtent_after_transform_counterexample:
  "transform exampleRegistry ''tile-pixels'' ''EPSG:4326'' (snd (getExtent lineFeature)) =
     Inr transformedLine
   \<and> type' transformedLine \<noteq> POINT
   \<and> flatCoordinates' transformedLine = [0, 8192, 20, 8172]
   \<and> (0, 8192) \<in> set (pairs (flatCoordinates' transformedLine))
   \<and> fst (getExtent transformedLine) = (0, 0, 10, 10)
   \<and> \<not> (8192 \<le> (10 :: real))
   \<and> transform exampleRegistry ''tile-pixels'' ''EPSG:4326'' (snd (getExtent pointFeature)) =
       Inr transformedPoint
   \<and> type' transformedPoint = POINT
   \<and> flatCoordinates' transformedPoint = [6, 8184]
   \<and> fst (getExtent transformedPoint) = (3, 4, 3, 4)"
  by (simp add: exampleRegistry_def tilePixels_def lineFeature_def pointFeature_def
      transformedLine_def transformedPoint_def constructor_def transform_def getExtent_def
      getHeight_def composeTransform_def applyTransform_def transform2D_def
      createOrUpdateFromFlatCoordinates_def createOrUpdateFromCoordinate_def extendXY_def
      Let_def)

section \<open>Midpoints\<close>

text \<open>The loop appends to what it was given the interpolated point of each slice, the
  first slice starting at the offset the loop was entered with.\<close>

lemma midpointsLoop_concat:
  "midpointsLoop E cs ends offset acc =
     acc @ concat (map (\<lambda>(offset, end). interpolatePoint E cs offset end 2 (1 / 2))
                     (zip (offset # ends) ends))"
  by (induction ends arbitrary: offset acc) (simp_all add: extend_def)

text \<open>
  C4, as the source has it. For every feature with the flat ends \<open>[e1, ..., en]\<close>,
  \<open>getFlatMidpoints\<close> returns the value in the midpoint slot when the slot is set (by an
  earlier call of \<open>getFlatMidpoints\<close> or of \<open>getFlatMidpoint\<close>, which share it), and when
  the slot is unset the concatenation, in the order of the ends, of the results of
  \<open>interpolatePoint\<close> at the fraction 1/2 on the slices \<open>[0, e1)\<close>, \<open>[e1, e2)\<close>, ...: the
  slices are the consecutive pairs of the list \<open>0, e1, ..., en\<close>. With two ends and the
  slot unset the result is the point of the first slice followed by the point of the
  second. When the slot is unset and \<open>interpolatePoint\<close> returns a coordinate pair on each
  of the slices, the result holds as many pairs as there are ends.
\<close>

theorem getFlatMidpoints_per_ring:
  "fst (getFlatMidpoints E this) =
     (case flatMidpoints' this of
        Some p \<Rightarrow> p
      | None \<Rightarrow>
          concat (map (\<lambda>(offset, end).
                         interpolatePoint E (flatCoordinates' this) offset end 2 (1 / 2))
                    (zip (0 # ends' this) (ends' this))))
   \<and> fst (getFlatMidpoints E (this\<lparr>flatMidpoints' := None\<rparr>)) =
     concat (map (\<lambda>(offset, end).
                    interpolatePoint E (flatCoordinates' this) offset end 2 (1 / 2))
               (zip (0 # ends' this) (ends' this)))
   \<and> fst (getFlatMidpoints E (this\<lparr>flatMidpoints' := None, ends' := [e1, e2]\<rparr>)) =
       interpolatePoint E (flatCoordinates' this) 0 e1 2 (1 / 2)
       @ interpolatePoint E (flatCoordinates' this) e1 e2 2 (1 / 2)
   \<and> ((\<forall>(offset, end) \<in> set (zip (0 # ends' this) (ends' this)).
          length (interpolatePoint E (flatCoordinates' this) offset end 2 (1 / 2)) = 2) \<longrightarrow>
        length (fst (getFlatMidpoints E (this\<lparr>flatMidpoints' := None\<rparr>)))
          = 2 * length (ends' this))"
proof -
  have len: "(\<forall>(offset, end) \<in> set sl. length (f offset end) = 2) \<Longrightarrow>
      length (concat (map (\<lambda>(offset, end). f offset end) sl)) = 2 * length sl"
    for sl :: "(nat \<times> nat) list" and f :: "nat \<Rightarrow> nat \<Rightarrow> real list"
    by (induction sl) auto
  have g: "fst (getFlatMidpoints E this) =
     (case flatMidpoints' this of
        Some p \<Rightarrow> p
      | None \<Rightarrow>
          concat (map (\<lambda>(offset, end).
                         interpolatePoint E (flatCoordinates' this) offset end 2 (1 / 2))
                    (zip (0 # ends' this) (ends' this))))"
    by (simp add: getFlatMidpoints_def midpointsLoop_concat Let_def split: option.split)
  have r: "fst (getFlatMidpoints E (this\<lparr>flatMidpoints' := None\<rparr>)) =
     concat (map (\<lambda>(offset, end).
                    interpolatePoint E (flatCoordinates' this) offset end 2 (1 / 2))
               (zip (0 # ends' this) (ends' this)))"
    by (simp add: getFlatMidpoints_def midpointsLoop_concat Let_def)
  have "fst (getFlatMidpoints E (this\<lparr>flatMidpoints' := None, ends' := [e1, e2]\<rparr>)) =
       interpolatePoint E (flatCoordinates' this) 0 e1 2 (1 / 2)
       @ interpolatePoint E (flatCoordinates' this) e1 e2 2 (1 / 2)"
    by (simp add: getFlatMidpoints_def midpointsLoop_concat Let_def)
  moreover have "(\<forall>(offset, end) \<in> set (zip (0 # ends' this) (ends' this)).
          length (interpolatePoint E (flatCoordinates' this) offset end 2 (1 / 2)) = 2) \<longrightarrow>
        length (fst (getFlatMidpoints E (this\<lparr>flatMidpoints' := None\<rparr>)))
          = 2 * length (ends' this)"
    unfolding r
    using len [of "zip (0 # ends' this) (ends' this)"
        "\<lambda>offset end. interpolatePoint E (flatCoordinates' this) offset end 2 (1 / 2)"]
    by simp
  ultimately show ?thesis using g r by blast
qed

text \<open>The two lines have the midpoints \<open>(5, 0)\<close> and \<open>(0, 5)\<close>, returned in this order.\<close>

theorem getFlatMidpoints_per_ring_witness:
  "flatMidpoints' twoLinesFeature = None
   \<and> ends' twoLinesFeature = [4, 8]
   \<and> interpolatePoint exampleEngines (flatCoordinates' twoLinesFeature) 0 4 2 (1 / 2) = [5, 0]
   \<and> interpolatePoint exampleEngines (flatCoordinates' twoLinesFeature) 4 8 2 (1 / 2) = [0, 5]
   \<and> fst (getFlatMidpoints exampleEngines twoLinesFeature) = [5, 0, 0, 5]
   \<and> length (fst (getFlatMidpoints exampleEngines twoLinesFeature)) = 4"
proof -
  have u: "twoLinesFeature\<lparr>flatMidpoints' := None\<rparr> = twoLinesFeature"
    "flatMidpoints' twoLinesFeature = None" "ends' twoLinesFeature = [4, 8]"
    by (simp_all add: twoLinesFeature_def constructor_def)
  have i: "interpolatePoint exampleEngines (flatCoordinates' twoLinesFeature) 0 4 2 (1 / 2)
      = [5, 0]"
    "interpolatePoint exampleEngines (flatCoordinates' twoLinesFeature) 4 8 2 (1 / 2)
      = [0, 5]"
    by (simp_all add: twoLinesFeature_def constructor_def exampleEngines_def)
  note k = getFlatMidpoints_per_ring [of exampleEngines twoLinesFeature 4 8, unfolded u]
  from k i have v: "fst (getFlatMidpoints exampleEngines twoLinesFeature) = [5, 0, 0, 5]"
    by simp
  from k i have "length (fst (getFlatMidpoints exampleEngines twoLinesFeature)) = 4"
    by simp
  then show ?thesis using u i v by simp
qed

text \<open>
  C4 as it is stated, for every feature with flat ends, fails on a feature whose midpoint
  slot \<open>getFlatMidpoint\<close> has filled. The buffer \<open>[0, 0, 10, 10]\<close> with the ends \<open>[2, 4]\<close>
  holds two slices of one point each, whose points at the fraction 1/2 are \<open>(0, 0)\<close> and
  \<open>(10, 10)\<close>; the point at the fraction 1/2 of the whole buffer is \<open>(5, 5)\<close>. After
  \<open>getFlatMidpoint\<close>, with no transform, \<open>getFlatMidpoints\<close> returns \<open>[5, 5]\<close> and not
  \<open>[0, 0, 10, 10]\<close>.
\<close>

theorem getFlatMidpoints_after_getFlatMidpoint_counterexample:
  "ends' twoPointsFeature = [2, 4]
   \<and> flatCoordinates' twoPointsFeature = [0, 0, 10, 10]
   \<and> interpolatePoint exampleEngines (flatCoordinates' twoPointsFeature) 0 2 2 (1 / 2)
       @ interpolatePoint exampleEngines (flatCoordinates' twoPointsFeature) 2 4 2 (1 / 2)
       = [0, 0, 10, 10]
   \<and> fst (getFlatMidpoint exampleEngines twoPointsFeature) = [5, 5]
   \<and> fst (getFlatMidpoints exampleEngines
             (snd (getFlatMidpoint exampleEngines twoPointsFeature))) = [5, 5]"
  by (simp add: twoPointsFeature_def constructor_def exampleEngines_def getFlatMidpoint_def
      getFlatMidpoints_def Let_def)

section \<open>The transform\<close>

text \<open>
  C8. The result of \<open>transform\<close> does not depend on its \<open>destination\<close> argument: with the
  same registry, source and feature, any two destinations give the same result, which
  is the same error or the same feature with the same coordinate buffer.
\<close>

theorem transform_ignores_destination:
  "transform getProjection source destination1 this =
   transform getProjection source destination2 this"
  by (simp add: transform_def)

section \<open>The caches\<close>

lemmas accessor_defs =
  getExtent_def getFlatInteriorPoint_def getFlatInteriorPoints_def getFlatMidpoint_def
  getFlatMidpoints_def

lemmas example_defs =
  exampleRegistry_def tilePixels_def shiftedPixels_def epsg4326_def lineFeature_def
  pointFeature_def cornerFeature_def transformedLine_def constructor_def

lemmas helper_defs =
  getHeight_def composeTransform_def applyTransform_def transform2D_def
  createOrUpdateFromFlatCoordinates_def createOrUpdateFromCoordinate_def extendXY_def
  extend_def

text \<open>
  C3. Each of the five caching accessors, called a second time on the feature that its
  first call left, returns the same value and leaves that feature as it is; after the
  first call the cache slot holds the value returned. The second call does not compute:
  it gives this result with any other helpers \<open>E2\<close> in place of the helpers \<open>E\<close> of the first
  call, and for \<open>getExtent\<close>, which takes no helper parameter, with any other buffer and
  type in place of those the first call read. The feature \<open>flat\<close> has numbers as its ends,
  as \<open>getFlatMidpoints\<close> requires.
\<close>

theorem cached_accessors_idempotent:
  "getExtent (snd (getExtent this)) = getExtent this
   \<and> extent' (snd (getExtent this)) = Some (fst (getExtent this))
   \<and> fst (getExtent ((snd (getExtent this))\<lparr>flatCoordinates' := cs, type' := ty\<rparr>))
       = fst (getExtent this)
   \<and> getFlatInteriorPoint E2 (snd (getFlatInteriorPoint E this)) = getFlatInteriorPoint E this
   \<and> flatInteriorPoints' (snd (getFlatInteriorPoint E this))
       = Some (fst (getFlatInteriorPoint E this))
   \<and> getFlatInteriorPoints E2 (snd (getFlatInteriorPoints E this))
       = getFlatInteriorPoints E this
   \<and> flatInteriorPoints' (snd (getFlatInteriorPoints E this))
       = Some (fst (getFlatInteriorPoints E this))
   \<and> getFlatMidpoint E2 (snd (getFlatMidpoint E this)) = getFlatMidpoint E this
   \<and> flatMidpoints' (snd (getFlatMidpoint E this)) = Some (fst (getFlatMidpoint E this))
   \<and> getFlatMidpoints E2 (snd (getFlatMidpoints E flat)) = getFlatMidpoints E flat
   \<and> flatMidpoints' (snd (getFlatMidpoints E flat)) = Some (fst (getFlatMidpoints E flat))"
  by (simp add: accessor_defs Let_def split: option.split prod.split)


text \<open>
  C10, as the source has it. The accessors \<open>get\<close>, \<open>getId\<close>, \<open>getType\<close>, \<open>getStride\<close>,
  \<open>getProperties\<close>, \<open>getEnds\<close> and \<open>getFlatCoordinates\<close> only read, so they are functions of
  the feature that return no feature. Each caching accessor leaves a feature that differs
  from the one it was called on in its own cache slot at most, except
  \<open>getFlatInteriorPoint\<close>, which calls \<open>getExtent\<close> and so may fill the extent slot as well
  as its own. \<open>transform\<close>, when it succeeds, leaves a feature that differs in the
  coordinate buffer at most, and its only failure is the unresolved projection.
\<close>

theorem accessors_frame:
  "snd (getExtent this) = this\<lparr>extent' := extent' (snd (getExtent this))\<rparr>
   \<and> snd (getFlatInteriorPoint E this) =
       this\<lparr>extent' := extent' (snd (getFlatInteriorPoint E this)),
            flatInteriorPoints' := flatInteriorPoints' (snd (getFlatInteriorPoint E this))\<rparr>
   \<and> snd (getFlatInteriorPoints E this) =
       this\<lparr>flatInteriorPoints' := flatInteriorPoints' (snd (getFlatInteriorPoints E this))\<rparr>
   \<and> snd (getFlatMidpoint E this) =
       this\<lparr>flatMidpoints' := flatMidpoints' (snd (getFlatMidpoint E this))\<rparr>
   \<and> snd (getFlatMidpoints E flat) =
       flat\<lparr>flatMidpoints' := flatMidpoints' (snd (getFlatMidpoints E flat))\<rparr>
   \<and> getGeometry this = this
   \<and> (case transform getProjection source destination this of
         Inl e \<Rightarrow> e = ProjectionNotFound
       | Inr this2 \<Rightarrow> this2 = this\<lparr>flatCoordinates' := flatCoordinates' this2\<rparr>)"
  by (simp add: accessor_defs transform_def getGeometry_def Let_def
      split: option.split prod.split)

text \<open>
  C10 as it is stated, with every accessor changing its own slot at most, fails for
  \<open>getFlatInteriorPoint\<close>: on the newly constructed line string, whose extent slot is
  unset, the call leaves the extent slot set to \<open>(0, 0, 10, 10)\<close>.
\<close>

theorem getFlatInteriorPoint_fills_extent_counterexample:
  "extent' lineFeature = None
   \<and> extent' (snd (getFlatInteriorPoint exampleEngines lineFeature)) = Some (0, 0, 10, 10)"
  by (simp add: getFlatInteriorPoint_def getExtent_def lineFeature_def constructor_def
      createOrUpdateFromFlatCoordinates_def extendXY_def Let_def)

section \<open>The affine map of the transform\<close>

lemma transformPairs_concat:
  "even (length cs) \<Longrightarrow>
     transformPairs t cs =
       concat (map (\<lambda>p. [fst (applyTransform t p), snd (applyTransform t p)]) (pairs cs))"
  by (induction cs rule: pairs.induct) simp_all

lemma transformPairs_length: "length (transformPairs t cs) = length cs"
  by (induction cs rule: pairs.induct) simp_all

lemma pairs_transformPairs:
  "pairs (transformPairs t cs) = map (applyTransform t) (pairs cs)"
  by (induction cs rule: pairs.induct) simp_all

text \<open>The transform that the source composes: no rotation, the scale \<open>s\<close> on x and \<open>- s\<close>
  on y, placed at \<open>(minX, maxY)\<close>.\<close>

lemma applyTransform_tile:
  "applyTransform (composeTransform minX maxY s (- s) 0 0 0) (x, y) =
     (s * x + minX, - s * y + maxY)"
  by (simp add: applyTransform_def composeTransform_def)

lemma transform_resolved:
  assumes "getProjection source = Some src"
    and "projWorldExtent src = (wMinX, wMinY, wMaxX, wMaxY)"
  shows "transform getProjection source destination this =
     Inr (this\<lparr>flatCoordinates' :=
       transformPairs
         (composeTransform wMinX wMaxY
            (getHeight (projWorldExtent src) / getHeight (projExtent src))
            (- (getHeight (projWorldExtent src) / getHeight (projExtent src))) 0 0 0)
         (flatCoordinates' this)\<rparr>)"
  using assms by (simp add: transform_def transform2D_def Let_def)

lemma transform_Inr:
  "transform getProjection source destination this = Inr this2 \<Longrightarrow>
     this2 = this\<lparr>flatCoordinates' := flatCoordinates' this2\<rparr>"
  by (auto simp: transform_def Let_def split: option.splits)

text \<open>
  C5, as the source has it. Let the source projection resolve to \<open>src\<close>, with the pixel
  extent \<open>(pMinX, pMinY, pMaxX, pMaxY)\<close> of non-zero height and the world extent
  \<open>(wMinX, wMinY, wMaxX, wMaxY)\<close>, and let \<open>s\<close> be the height of the world extent of \<open>src\<close>
  divided by the height of its pixel extent. Then \<open>transform\<close> replaces every coordinate
  pair \<open>(x, y)\<close> of a buffer of even length by \<open>(s * x + wMinX, - s * y + wMaxY)\<close>, whatever
  the destination is. When the corner \<open>(pMinX, pMinY)\<close> of the pixel extent, its top-left
  corner in pixel rows that run downwards, is the origin, a coordinate pair at that corner
  is sent to \<open>(wMinX, wMaxY)\<close>, the top-left corner of the world extent of \<open>src\<close>.
\<close>

theorem transform_affine:
  assumes "getProjection source = Some src"
    and "getHeight (projExtent src) \<noteq> 0"
    and "projExtent src = (pMinX, pMinY, pMaxX, pMaxY)"
    and "projWorldExtent src = (wMinX, wMinY, wMaxX, wMaxY)"
    and "s = getHeight (projWorldExtent src) / getHeight (projExtent src)"
    and "even (length (flatCoordinates' this))"
  shows "transform getProjection source destination this =
           Inr (this\<lparr>flatCoordinates' :=
                  concat (map (\<lambda>(x, y). [s * x + wMinX, - s * y + wMaxY])
                            (pairs (flatCoordinates' this)))\<rparr>)
         \<and> (pMinX = 0 \<and> pMinY = 0 \<and> flatCoordinates' this = [pMinX, pMinY] \<longrightarrow>
              transform getProjection source destination this =
                Inr (this\<lparr>flatCoordinates' := [wMinX, wMaxY]\<rparr>))"
proof -
  let ?t = "composeTransform wMinX wMaxY s (- s) 0 0 0"
  have m: "(\<lambda>p. [fst (applyTransform ?t p), snd (applyTransform ?t p)]) =
           (\<lambda>(x, y). [s * x + wMinX, - s * y + wMaxY])"
    by (auto simp: applyTransform_tile fun_eq_iff)
  have "transform getProjection source destination this =
     Inr (this\<lparr>flatCoordinates' := transformPairs ?t (flatCoordinates' this)\<rparr>)"
    using transform_resolved [of getProjection source, OF assms(1) assms(4)] assms(5)
    by simp
  then have "transform getProjection source destination this =
           Inr (this\<lparr>flatCoordinates' :=
                  concat (map (\<lambda>(x, y). [s * x + wMinX, - s * y + wMaxY])
                            (pairs (flatCoordinates' this)))\<rparr>)"
    using transformPairs_concat [OF assms(6), of ?t] m by simp
  then show ?thesis by auto
qed

text \<open>From the tile pixels, whose world extent is twice as high as their pixel extent,
  the line string from \<open>(0, 0)\<close> to \<open>(10, 10)\<close> becomes the one from \<open>(0, 8192)\<close> to
  \<open>(20, 8172)\<close>, and a point at the origin is sent to \<open>(0, 8192)\<close>.\<close>

theorem transform_affine_witness:
  "exampleRegistry ''tile-pixels'' = Some tilePixels
   \<and> getHeight (projExtent tilePixels) \<noteq> 0
   \<and> projExtent tilePixels = (0, 0, 4096, 4096)
   \<and> projWorldExtent tilePixels = (0, 0, 8192, 8192)
   \<and> (2 :: real) = getHeight (projWorldExtent tilePixels) / getHeight (projExtent tilePixels)
   \<and> even (length (flatCoordinates' lineFeature))
   \<and> transform exampleRegistry ''tile-pixels'' ''EPSG:4326'' lineFeature =
       Inr (lineFeature\<lparr>flatCoordinates' := [0, 8192, 20, 8172]\<rparr>)
   \<and> transform exampleRegistry ''tile-pixels'' ''EPSG:4326''
         (pointFeature\<lparr>flatCoordinates' := [0, 0]\<rparr>) =
       Inr (pointFeature\<lparr>flatCoordinates' := [0, 8192]\<rparr>)"
proof -
  have h: "exampleRegistry ''tile-pixels'' = Some tilePixels"
    "getHeight (projExtent tilePixels) \<noteq> 0"
    "projExtent tilePixels = (0, 0, 4096, 4096)"
    "projWorldExtent tilePixels = (0, 0, 8192, 8192)"
    "(2 :: real) = getHeight (projWorldExtent tilePixels) / getHeight (projExtent tilePixels)"
    by (simp_all add: exampleRegistry_def tilePixels_def getHeight_def)
  have l: "even (length (flatCoordinates' lineFeature))"
    "pairs (flatCoordinates' lineFeature) = [(0, 0), (10, 10)]"
    by (simp_all add: lineFeature_def constructor_def)
  have p: "even (length (flatCoordinates' (pointFeature\<lparr>flatCoordinates' := [0, 0]\<rparr>)))"
    "flatCoordinates' (pointFeature\<lparr>flatCoordinates' := [0, 0]\<rparr>) = [0, 0]"
    by simp_all
  from transform_affine [of exampleRegistry "''tile-pixels''",
      OF h(1) h(2) h(3) h(4) h(5) l(1), of "''EPSG:4326''"] l(2)
  have "transform exampleRegistry ''tile-pixels'' ''EPSG:4326'' lineFeature =
       Inr (lineFeature\<lparr>flatCoordinates' := [0, 8192, 20, 8172]\<rparr>)"
    by simp
  moreover
  from transform_affine [of exampleRegistry "''tile-pixels''",
      OF h(1) h(2) h(3) h(4) h(5) p(1), of "''EPSG:4326''"] p(2)
  have "transform exampleRegistry ''tile-pixels'' ''EPSG:4326''
         (pointFeature\<lparr>flatCoordinates' := [0, 0]\<rparr>) =
       Inr (pointFeature\<lparr>flatCoordinates' := [0, 8192]\<rparr>)"
    by simp
  ultimately show ?thesis using h l by simp
qed

text \<open>
  C5 as it is stated fails in two places. First, the scale and the position come from
  the world extent of the source projection, not from the destination: from the tile
  pixels to \<open>EPSG:4326\<close> the point \<open>(3, 4)\<close> is sent to \<open>(6, 8184)\<close>, which is not its image
  under the map that is placed by the destination's world extent. Second, the top-left
  corner of a pixel extent that does not start at the origin is not sent to the top-left
  corner of the world extent: with the pixel extent \<open>(10, 10, 20, 20)\<close> and the world extent
  \<open>(0, 0, 100, 100)\<close>, source and destination being the same projection, the corners
  \<open>(10, 10)\<close> and \<open>(10, 20)\<close> are sent to \<open>(100, 0)\<close> and \<open>(100, -100)\<close>, neither of which is
  the corner \<open>(0, 100)\<close>.
\<close>

theorem transform_not_to_destination_counterexample:
  "exampleRegistry ''tile-pixels'' = Some tilePixels
   \<and> exampleRegistry ''EPSG:4326'' = Some epsg4326
   \<and> flatCoordinates' pointFeature = [3, 4]
   \<and> transform exampleRegistry ''tile-pixels'' ''EPSG:4326'' pointFeature =
       Inr (pointFeature\<lparr>flatCoordinates' := [6, 8184]\<rparr>)
   \<and> affineToDestination tilePixels epsg4326 (3, 4) \<noteq> (6, 8184)
   \<and> exampleRegistry ''shifted-pixels'' = Some shiftedPixels
   \<and> projExtent shiftedPixels = (10, 10, 20, 20)
   \<and> projWorldExtent shiftedPixels = (0, 0, 100, 100)
   \<and> flatCoordinates' cornerFeature = [10, 10, 10, 20]
   \<and> transform exampleRegistry ''shifted-pixels'' ''shifted-pixels'' cornerFeature =
       Inr (cornerFeature\<lparr>flatCoordinates' := [100, 0, 100, -100]\<rparr>)"
  by (simp add: example_defs transform_def helper_defs affineToDestination_def Let_def)

text \<open>
  C6. Two calls of \<open>transform\<close> in succession, with a source that resolves to \<open>src\<close>, whose
  pixel extent has a non-zero height, and any destinations, both succeed, and the second
  call maps the buffer that the first call left: every pair \<open>(x, y)\<close> of the original
  buffer (of even length) ends as the image of its image,
  \<open>(s * (s * x + wMinX) + wMinX, - s * (- s * y + wMaxY) + wMaxY)\<close>. Nothing guards against
  the second application.
\<close>

theorem transform_twice_composes:
  assumes "getProjection source = Some src"
    and "getHeight (projExtent src) \<noteq> 0"
    and "projWorldExtent src = (wMinX, wMinY, wMaxX, wMaxY)"
    and "s = getHeight (projWorldExtent src) / getHeight (projExtent src)"
    and "even (length (flatCoordinates' this))"
  shows "(case transform getProjection source destination1 this of
            Inl e \<Rightarrow> Inl e
          | Inr this1 \<Rightarrow> transform getProjection source destination2 this1) =
           Inr (this\<lparr>flatCoordinates' :=
                  concat (map (\<lambda>(x, y). [s * (s * x + wMinX) + wMinX,
                                         - s * (- s * y + wMaxY) + wMaxY])
                            (pairs (flatCoordinates' this)))\<rparr>)"
proof -
  let ?t = "composeTransform wMinX wMaxY s (- s) 0 0 0"
  let ?cs = "flatCoordinates' this"
  have m: "(\<lambda>p. [fst (applyTransform ?t p), snd (applyTransform ?t p)]) \<circ> applyTransform ?t =
           (\<lambda>(x, y). [s * (s * x + wMinX) + wMinX, - s * (- s * y + wMaxY) + wMaxY])"
    by (auto simp: applyTransform_tile fun_eq_iff)
  have ev: "even (length (transformPairs ?t ?cs))"
    using assms(5) by (simp add: transformPairs_length)
  have two: "transformPairs ?t (transformPairs ?t ?cs) =
      concat (map (\<lambda>(x, y). [s * (s * x + wMinX) + wMinX, - s * (- s * y + wMaxY) + wMaxY])
                (pairs ?cs))"
    unfolding transformPairs_concat [OF ev] pairs_transformPairs map_map m ..
  have 1: "transform getProjection source destination1 this =
     Inr (this\<lparr>flatCoordinates' := transformPairs ?t ?cs\<rparr>)"
    using transform_resolved [of getProjection source, OF assms(1) assms(3)] assms(4)
    by simp
  have 2: "transform getProjection source destination2
             (this\<lparr>flatCoordinates' := transformPairs ?t ?cs\<rparr>) =
     Inr (this\<lparr>flatCoordinates' := transformPairs ?t (transformPairs ?t ?cs)\<rparr>)"
    using transform_resolved [of getProjection source, OF assms(1) assms(3),
        of destination2 "this\<lparr>flatCoordinates' := transformPairs ?t ?cs\<rparr>"] assms(4)
    by simp
  show ?thesis unfolding 1 using 2 two by simp
qed

text \<open>Transformed twice from the tile pixels, the line string from \<open>(0, 0)\<close> to
  \<open>(10, 10)\<close> becomes the one from \<open>(0, -8192)\<close> to \<open>(40, -8152)\<close>.\<close>

theorem transform_twice_composes_witness:
  "exampleRegistry ''tile-pixels'' = Some tilePixels
   \<and> getHeight (projExtent tilePixels) \<noteq> 0
   \<and> projWorldExtent tilePixels = (0, 0, 8192, 8192)
   \<and> (2 :: real) = getHeight (projWorldExtent tilePixels) / getHeight (projExtent tilePixels)
   \<and> even (length (flatCoordinates' lineFeature))
   \<and> (case transform exampleRegistry ''tile-pixels'' ''EPSG:4326'' lineFeature of
         Inl e \<Rightarrow> Inl e
       | Inr this1 \<Rightarrow> transform exampleRegistry ''tile-pixels'' ''EPSG:4326'' this1) =
       Inr (lineFeature\<lparr>flatCoordinates' := [0, -8192, 40, -8152]\<rparr>)"
proof -
  have h: "exampleRegistry ''tile-pixels'' = Some tilePixels"
    "getHeight (projExtent tilePixels) \<noteq> 0"
    "projWorldExtent tilePixels = (0, 0, 8192, 8192)"
    "(2 :: real) = getHeight (projWorldExtent tilePixels) / getHeight (projExtent tilePixels)"
    by (simp_all add: exampleRegistry_def tilePixels_def getHeight_def)
  have l: "even (length (flatCoordinates' lineFeature))"
    "pairs (flatCoordinates' lineFeature) = [(0, 0), (10, 10)]"
    by (simp_all add: lineFeature_def constructor_def)
  from transform_twice_composes [of exampleRegistry "''tile-pixels''",
      OF h(1) h(2) h(3) h(4) l(1), of "''EPSG:4326''" "''EPSG:4326''"] l(2)
  have "(case transform exampleRegistry ''tile-pixels'' ''EPSG:4326'' lineFeature of
         Inl e \<Rightarrow> Inl e
       | Inr this1 \<Rightarrow> transform exampleRegistry ''tile-pixels'' ''EPSG:4326'' this1) =
       Inr (lineFeature\<lparr>flatCoordinates' := [0, -8192, 40, -8152]\<rparr>)"
    by simp
  then show ?thesis using h l by simp
qed

section \<open>The transform and the caches\<close>

text \<open>
  C1, as the source has it. \<open>transform\<close> invalidates nothing: the three cache slots of the
  feature it leaves hold what they held before. So an accessor whose slot was set before
  the transform still returns the value cached before the transform and computes
  nothing. An accessor whose slot was unset computes on the buffer that the transform
  left; \<open>getFlatInteriorPoint\<close> then takes its centre from \<open>getExtent\<close>, that is from the
  extent slot when that was set before the transform. The feature \<open>flat\<close> has numbers as
  its ends, as \<open>getFlatMidpoints\<close> requires.
\<close>

theorem transform_keeps_caches:
  assumes "transform getProjection source destination this = Inr this2"
    and "transform getProjection source destination flat = Inr flat2"
  shows "extent' this2 = extent' this
    \<and> flatInteriorPoints' this2 = flatInteriorPoints' this
    \<and> flatMidpoints' this2 = flatMidpoints' this
    \<and> (\<forall>e. extent' this = Some e \<longrightarrow> getExtent this2 = (e, this2))
    \<and> (\<forall>p. flatInteriorPoints' this = Some p \<longrightarrow>
          getFlatInteriorPoint E this2 = (p, this2)
          \<and> getFlatInteriorPoints E this2 = (p, this2))
    \<and> (\<forall>p. flatMidpoints' this = Some p \<longrightarrow> getFlatMidpoint E this2 = (p, this2))
    \<and> (\<forall>p. flatMidpoints' flat = Some p \<longrightarrow> getFlatMidpoints E flat2 = (p, flat2))
    \<and> (extent' this = None \<longrightarrow>
          fst (getExtent this2) =
            (if type' this2 = POINT
             then createOrUpdateFromCoordinate (flatCoordinates' this2)
             else createOrUpdateFromFlatCoordinates
                    (flatCoordinates' this2) 0 (length (flatCoordinates' this2)) 2))
    \<and> (flatInteriorPoints' this = None \<longrightarrow>
          fst (getFlatInteriorPoint E this2) =
            getInteriorPointOfArray E (flatCoordinates' this2) 0 (ends' this2) 2
              (getCenter E (fst (getExtent this2))) 0
          \<and> fst (getFlatInteriorPoints E this2) =
            getInteriorPointsOfMultiArray E (flatCoordinates' this2) 0 (ends' this2) 2
              (linearRingssCenter E (flatCoordinates' this2) 0 (ends' this2) 2))
    \<and> (flatMidpoints' this = None \<longrightarrow>
          fst (getFlatMidpoint E this2) =
            interpolatePoint E (flatCoordinates' this2) 0 (length (flatCoordinates' this2)) 2
              (1 / 2))
    \<and> (flatMidpoints' flat = None \<longrightarrow>
          fst (getFlatMidpoints E flat2) =
            midpointsLoop E (flatCoordinates' flat2) (ends' flat2) 0 [])"
proof -
  from transform_Inr [OF assms(1)] obtain cs where
    t: "this2 = this\<lparr>flatCoordinates' := cs\<rparr>" by blast
  from transform_Inr [OF assms(2)] obtain ds where
    f: "flat2 = flat\<lparr>flatCoordinates' := ds\<rparr>" by blast
  show ?thesis
    unfolding t f
    by (simp add: accessor_defs Let_def split: option.split prod.split)
qed

text \<open>
  The line string, after \<open>getExtent\<close> has filled its extent slot, is transformed from the
  tile pixels. Its extent is still \<open>(0, 0, 10, 10)\<close>; its midpoints, whose slot was unset,
  are computed on the new buffer; its interior point, whose slot was unset as well, is
  computed on the new buffer with the centre \<open>(5, 5)\<close> of the old extent.
\<close>

theorem transform_keeps_caches_witness:
  "transform exampleRegistry ''tile-pixels'' ''EPSG:4326'' (snd (getExtent lineFeature)) =
     Inr transformedLine
   \<and> extent' (snd (getExtent lineFeature)) = Some (0, 0, 10, 10)
   \<and> flatInteriorPoints' (snd (getExtent lineFeature)) = None
   \<and> flatMidpoints' (snd (getExtent lineFeature)) = None
   \<and> flatCoordinates' transformedLine = [0, 8192, 20, 8172]
   \<and> getExtent transformedLine = ((0, 0, 10, 10), transformedLine)
   \<and> fst (getFlatInteriorPoint exampleEngines transformedLine) = [5, 5]
   \<and> fst (getFlatMidpoint exampleEngines transformedLine) = [10, 8182]
   \<and> fst (getFlatMidpoints exampleEngines transformedLine) = [10, 8182]"
proof -
  have t: "transform exampleRegistry ''tile-pixels'' ''EPSG:4326''
             (snd (getExtent lineFeature)) = Inr transformedLine"
    by (simp add: example_defs transform_def helper_defs getExtent_def Let_def)
  have s: "extent' (snd (getExtent lineFeature)) = Some (0, 0, 10, 10)"
    "flatInteriorPoints' (snd (getExtent lineFeature)) = None"
    "flatMidpoints' (snd (getExtent lineFeature)) = None"
    by (simp_all add: example_defs helper_defs getExtent_def Let_def)
  have c: "flatCoordinates' transformedLine = [0, 8192, 20, 8172]"
    "ends' transformedLine = [4]"
    by (simp_all add: example_defs getExtent_def Let_def)
  note k = transform_keeps_caches [OF t t, of exampleEngines]
  from k s(1) have e: "getExtent transformedLine = ((0, 0, 10, 10), transformedLine)"
    by blast
  from k s(2) have "fst (getFlatInteriorPoint exampleEngines transformedLine) =
      getInteriorPointOfArray exampleEngines (flatCoordinates' transformedLine) 0
        (ends' transformedLine) 2
        (getCenter exampleEngines (fst (getExtent transformedLine))) 0"
    by blast
  then have i: "fst (getFlatInteriorPoint exampleEngines transformedLine) = [5, 5]"
    unfolding e by (simp add: exampleEngines_def)
  from k s(3) have "fst (getFlatMidpoint exampleEngines transformedLine) =
      interpolatePoint exampleEngines (flatCoordinates' transformedLine) 0
        (length (flatCoordinates' transformedLine)) 2 (1 / 2)"
    by blast
  then have m: "fst (getFlatMidpoint exampleEngines transformedLine) = [10, 8182]"
    unfolding c by (simp add: exampleEngines_def)
  from k s(3) have "fst (getFlatMidpoints exampleEngines transformedLine) =
      midpointsLoop exampleEngines (flatCoordinates' transformedLine)
        (ends' transformedLine) 0 []"
    by blast
  then have ms: "fst (getFlatMidpoints exampleEngines transformedLine) = [10, 8182]"
    unfolding c by (simp add: exampleEngines_def extend_def)
  show ?thesis using t s c(1) e i m ms by simp
qed

text \<open>
  C1 as it is stated fails: \<open>getExtent\<close> on the line string returns \<open>(0, 0, 10, 10)\<close>; the
  transform from the tile pixels then leaves the buffer \<open>[0, 8192, 20, 8172]\<close>; and the
  next \<open>getExtent\<close> still returns \<open>(0, 0, 10, 10)\<close>, the value cached before the transform,
  while the extent of the buffer it now has is \<open>(0, 8172, 20, 8192)\<close>, which the same
  feature returns once its extent slot is unset.
\<close>

theorem transform_stale_extent_counterexample:
  "fst (getExtent lineFeature) = (0, 0, 10, 10)
   \<and> transform exampleRegistry ''tile-pixels'' ''EPSG:4326'' (snd (getExtent lineFeature)) =
       Inr transformedLine
   \<and> flatCoordinates' transformedLine = [0, 8192, 20, 8172]
   \<and> fst (getExtent transformedLine) = (0, 0, 10, 10)
   \<and> fst (getExtent (transformedLine\<lparr>extent' := None\<rparr>)) = (0, 8172, 20, 8192)"
  by (simp add: example_defs transform_def helper_defs getExtent_def Let_def)

end
